theory Spec2Isabelle
  imports Complex_Main
begin

section \<open>JavaScript values used by the wallet router\<close>

text \<open>
  The router (\<^verbatim>\<open>src/router/wallet.js\<close>) works on the fields of a JSON request body, on
  JavaScript numbers and on strings. A number is an IEEE-754 double: \<open>NaN\<close>, one of the
  two infinities, or a finite value, kept as the rational it denotes. Every operation
  that JavaScript rounds is rounded here, by \<open>round_double\<close>. The sign of zero is not
  represented: no test of the router tells \<open>-0\<close> from \<open>0\<close>.
\<close>

datatype number = NaN | Infinity | NegInfinity | Finite rat

subsection \<open>Rounding to the nearest double\<close>

text \<open>The number of binary digits of a positive integer.\<close>

function bit_length :: "int \<Rightarrow> int" where
  "bit_length n = (if 0 < n then bit_length (n div 2) + 1 else 0)"
  by pat_completeness auto
termination
  by (relation "measure nat") auto

declare bit_length.simps [simp del]

definition pow2 :: "int \<Rightarrow> rat" where
  "pow2 e = (if 0 \<le> e then 2 ^ nat e else 1 / 2 ^ nat (- e))"

text \<open>The exponent \<open>k\<close> with \<open>2 ^ k \<le> a < 2 ^ (k + 1)\<close>, for a positive \<open>a\<close>.\<close>

definition floor_log2 :: "rat \<Rightarrow> int" where
  "floor_log2 a =
     (let (n, d) = quotient_of a;
          k = bit_length n - bit_length d
      in if pow2 k \<le> a then k else k - 1)"

text \<open>The integer nearest to a rational that is not negative; a tie goes to the even one.\<close>

definition nearest_even :: "rat \<Rightarrow> int" where
  "nearest_even y =
     (let m = \<lfloor>y\<rfloor>; f = y - of_int m
      in if 1 / 2 < f \<or> (f = 1 / 2 \<and> odd m) then m + 1 else m)"

text \<open>
  Round to nearest, ties to even, in binary64: 53 binary digits, the exponent of the last
  digit between \<open>-1074\<close> (subnormal numbers) and \<open>971\<close>; a magnitude that rounds to
  \<open>2 ^ 1024\<close> or more becomes an infinity.
\<close>

definition round_double :: "rat \<Rightarrow> number" where
  "round_double x =
     (if x = 0 then Finite 0
      else
        let a = \<bar>x\<bar>;
            e = max (floor_log2 a - 52) (- 1074);
            m = nearest_even (a / pow2 e)
        in if 971 < e \<or> (e = 971 \<and> m = 9007199254740992)
           then (if x < 0 then NegInfinity else Infinity)
           else Finite (if x < 0 then - (of_int m * pow2 e) else of_int m * pow2 e))"

subsection \<open>Arithmetic and comparison\<close>

fun isNaN :: "number \<Rightarrow> bool" where
  "isNaN NaN = True"
| "isNaN _ = False"

fun js_neg :: "number \<Rightarrow> number" where
  "js_neg NaN = NaN"
| "js_neg Infinity = NegInfinity"
| "js_neg NegInfinity = Infinity"
| "js_neg (Finite a) = Finite (- a)"

text \<open>\<open>a + b\<close>\<close>

fun js_add :: "number \<Rightarrow> number \<Rightarrow> number" where
  "js_add (Finite a) (Finite b) = round_double (a + b)"
| "js_add NaN _ = NaN"
| "js_add _ NaN = NaN"
| "js_add Infinity NegInfinity = NaN"
| "js_add NegInfinity Infinity = NaN"
| "js_add Infinity _ = Infinity"
| "js_add _ Infinity = Infinity"
| "js_add NegInfinity _ = NegInfinity"
| "js_add _ NegInfinity = NegInfinity"

text \<open>\<open>a - b\<close>\<close>

definition js_sub :: "number \<Rightarrow> number \<Rightarrow> number" where
  "js_sub a b = js_add a (js_neg b)"

text \<open>The sign of a number that is not \<open>NaN\<close>: \<open>-1\<close>, \<open>0\<close> or \<open>1\<close>.\<close>

fun js_sign :: "number \<Rightarrow> int" where
  "js_sign NaN = 0"
| "js_sign Infinity = 1"
| "js_sign NegInfinity = - 1"
| "js_sign (Finite a) = (if a < 0 then - 1 else if a = 0 then 0 else 1)"

text \<open>\<open>a * b\<close>: an infinity times zero is \<open>NaN\<close>.\<close>

definition js_mul :: "number \<Rightarrow> number \<Rightarrow> number" where
  "js_mul a b =
     (case (a, b) of
        (Finite x, Finite y) \<Rightarrow> round_double (x * y)
      | _ \<Rightarrow>
          if isNaN a \<or> isNaN b \<or> js_sign a * js_sign b = 0 then NaN
          else if js_sign a * js_sign b = 1 then Infinity else NegInfinity)"

text \<open>\<open>Math.abs(a)\<close>\<close>

fun Math_abs :: "number \<Rightarrow> number" where
  "Math_abs NaN = NaN"
| "Math_abs Infinity = Infinity"
| "Math_abs NegInfinity = Infinity"
| "Math_abs (Finite a) = Finite \<bar>a\<bar>"

text \<open>\<open>a < b\<close>: every comparison with \<open>NaN\<close> is false.\<close>

fun js_lt :: "number \<Rightarrow> number \<Rightarrow> bool" where
  "js_lt (Finite a) (Finite b) = (a < b)"
| "js_lt NaN _ = False"
| "js_lt _ NaN = False"
| "js_lt _ NegInfinity = False"
| "js_lt NegInfinity _ = True"
| "js_lt Infinity _ = False"
| "js_lt _ Infinity = True"

text \<open>\<open>a > b\<close> and \<open>a <= b\<close>\<close>

definition js_gt :: "number \<Rightarrow> number \<Rightarrow> bool" where
  "js_gt a b = js_lt b a"

definition js_le :: "number \<Rightarrow> number \<Rightarrow> bool" where
  "js_le a b = (\<not> isNaN a \<and> \<not> isNaN b \<and> \<not> js_lt b a)"

text \<open>\<open>Math.max(a, b)\<close>: \<open>NaN\<close> as soon as one argument is \<open>NaN\<close>.\<close>

definition Math_max :: "number \<Rightarrow> number \<Rightarrow> number" where
  "Math_max a b = (if isNaN a \<or> isNaN b then NaN else if js_lt a b then b else a)"

text \<open>The truth value of a number in a condition or under \<open>||\<close>: \<open>0\<close> and \<open>NaN\<close> are falsy.\<close>

definition truthy_number :: "number \<Rightarrow> bool" where
  "truthy_number n = (n \<noteq> NaN \<and> n \<noteq> Finite 0)"

text \<open>
  A field of the request body, after \<^verbatim>\<open>express.json()\<close>: absent (\<open>undefined\<close>), \<open>null\<close>, a
  boolean, a number or a string. Fields holding arrays or objects are not modelled.
\<close>

datatype jsval = JUndefined | JNull | JBool bool | JNum number | JStr string

fun truthy :: "jsval \<Rightarrow> bool" where
  "truthy JUndefined = False"
| "truthy JNull = False"
| "truthy (JBool b) = b"
| "truthy (JNum n) = truthy_number n"
| "truthy (JStr s) = (s \<noteq> [])"

subsection \<open>Strings\<close>

text \<open>
  Strings are byte strings; \<open>toLowerCase\<close> and \<open>toUpperCase\<close> map the ASCII letters and
  leave every other character as it is. JavaScript also maps the letters outside ASCII;
  wallet addresses and token types are ASCII.
\<close>

definition upper_letters :: string where
  "upper_letters = ''ABCDEFGHIJKLMNOPQRSTUVWXYZ''"

definition lower_letters :: string where
  "lower_letters = ''abcdefghijklmnopqrstuvwxyz''"

definition toLowerCase :: "string \<Rightarrow> string" where
  "toLowerCase s =
     map (\<lambda>c. case map_of (zip upper_letters lower_letters) c of Some d \<Rightarrow> d | None \<Rightarrow> c) s"

definition toUpperCase :: "string \<Rightarrow> string" where
  "toUpperCase s =
     map (\<lambda>c. case map_of (zip lower_letters upper_letters) c of Some d \<Rightarrow> d | None \<Rightarrow> c) s"

subsection \<open>parseFloat\<close>

text \<open>
  \<open>parseFloat\<close> skips leading white space and reads the longest prefix that is a decimal
  literal: an optional sign, then \<open>Infinity\<close>, or digits with an optional fraction and an
  optional exponent. Without such a prefix the result is \<open>NaN\<close>. The value of the literal
  is rounded to the nearest double.
\<close>

text \<open>
  White space and line terminators of JavaScript, in UTF-8: the ASCII ones, then U+00A0,
  U+1680, U+2000 to U+200A, U+2028, U+2029, U+202F, U+205F, U+3000 and U+FEFF.
\<close>

fun skip_space :: "string \<Rightarrow> string" where
  "skip_space (c1 # c2 # c3 # cs) =
     (if c1 \<in> set [CHR '' '', CHR 0x09, CHR 0x0A, CHR 0x0B, CHR 0x0C, CHR 0x0D]
      then skip_space (c2 # c3 # cs)
      else if c1 = CHR 0xC2 \<and> c2 = CHR 0xA0 then skip_space (c3 # cs)
      else if (c1 = CHR 0xE1 \<and> c2 = CHR 0x9A \<and> c3 = CHR 0x80)
              \<or> (c1 = CHR 0xE2 \<and> c2 = CHR 0x80
                  \<and> c3 \<in> set [CHR 0x80, CHR 0x81, CHR 0x82, CHR 0x83, CHR 0x84, CHR 0x85,
                              CHR 0x86, CHR 0x87, CHR 0x88, CHR 0x89, CHR 0x8A, CHR 0xA8,
                              CHR 0xA9, CHR 0xAF])
              \<or> (c1 = CHR 0xE2 \<and> c2 = CHR 0x81 \<and> c3 = CHR 0x9F)
              \<or> (c1 = CHR 0xE3 \<and> c2 = CHR 0x80 \<and> c3 = CHR 0x80)
              \<or> (c1 = CHR 0xEF \<and> c2 = CHR 0xBB \<and> c3 = CHR 0xBF)
      then skip_space cs
      else c1 # c2 # c3 # cs)"
| "skip_space [c1, c2] =
     (if c1 \<in> set [CHR '' '', CHR 0x09, CHR 0x0A, CHR 0x0B, CHR 0x0C, CHR 0x0D]
      then skip_space [c2]
      else if c1 = CHR 0xC2 \<and> c2 = CHR 0xA0 then []
      else [c1, c2])"
| "skip_space [c1] =
     (if c1 \<in> set [CHR '' '', CHR 0x09, CHR 0x0A, CHR 0x0B, CHR 0x0C, CHR 0x0D]
      then [] else [c1])"
| "skip_space [] = []"

definition is_digit :: "char \<Rightarrow> bool" where
  "is_digit c = (c \<in> set ''0123456789'')"

definition digit_value :: "char \<Rightarrow> int" where
  "digit_value c = (case map_of (zip ''0123456789'' [0, 1, 2, 3, 4, 5, 6, 7, 8, 9]) c of
                      Some d \<Rightarrow> d | None \<Rightarrow> 0)"

definition digits_value :: "string \<Rightarrow> int" where
  "digits_value ds = foldl (\<lambda>n c. 10 * n + digit_value c) 0 ds"

text \<open>The sign in front of a literal: whether it is negative, and the rest of the text.\<close>

fun read_sign :: "string \<Rightarrow> bool \<times> string" where
  "read_sign (c # cs) =
     (if c = CHR ''-'' then (True, cs) else if c = CHR ''+'' then (False, cs) else (False, c # cs))"
| "read_sign [] = (False, [])"

text \<open>The exponent part after the mantissa; \<open>0\<close> when there is none with a digit.\<close>

fun read_exponent :: "string \<Rightarrow> int" where
  "read_exponent (c # cs) =
     (if c = CHR ''e'' \<or> c = CHR ''E'' then
        (let (neg, r) = read_sign cs; ds = takeWhile is_digit r
         in if ds = [] then 0
            else if neg then - digits_value ds else digits_value ds)
      else 0)"
| "read_exponent [] = 0"

definition scale10 :: "rat \<Rightarrow> int \<Rightarrow> rat" where
  "scale10 m e = (if 0 \<le> e then m * 10 ^ nat e else m / 10 ^ nat (- e))"

definition parseFloat_string :: "string \<Rightarrow> number" where
  "parseFloat_string s =
     (let (neg, r) = read_sign (skip_space s)
      in if take 8 r = ''Infinity'' then (if neg then NegInfinity else Infinity)
         else
           let ip = takeWhile is_digit r;
               r1 = dropWhile is_digit r;
               fp = (case r1 of c # cs \<Rightarrow> if c = CHR ''.'' then takeWhile is_digit cs else []
                     | [] \<Rightarrow> []);
               r2 = (case r1 of c # cs \<Rightarrow> if c = CHR ''.'' then dropWhile is_digit cs else r1
                     | [] \<Rightarrow> [])
           in if ip = [] \<and> fp = [] then NaN
              else
                let m = scale10 (of_int (digits_value (ip @ fp)))
                          (read_exponent r2 - int (length fp))
                in round_double (if neg then - m else m))"

text \<open>
  \<open>parseFloat(v)\<close> first converts \<open>v\<close> to a string. The text of a number parses back to
  that number; the texts of \<open>undefined\<close>, \<open>null\<close>, \<open>true\<close> and \<open>false\<close> start with no
  literal.
\<close>

fun parseFloat :: "jsval \<Rightarrow> number" where
  "parseFloat (JStr s) = parseFloat_string s"
| "parseFloat (JNum n) = n"
| "parseFloat _ = NaN"

section \<open>The allocation registry\<close>

text \<open>
  \<open>loadWalletAllocations\<close> reads \<^verbatim>\<open>data/wallet_allocations.csv\<close> and builds an object keyed
  by the lower-case address. The file and the CSV parser are outside the sources: the model
  takes the parsed rows, or \<open>None\<close> when reading or parsing threw. A row whose
  \<open>wallet_address\<close> is not a string makes \<open>toLowerCase\<close> throw. The \<open>catch\<close> block logs
  the error and returns nothing, so the result of a failed load is \<open>undefined\<close>, here \<open>None\<close>.
  A row whose address is \<open>__proto__\<close> would replace the prototype of the table instead of
  adding a key; such a file is outside the model.
\<close>

record allocation =
  taral :: number
  rvlng :: number

record csv_record =
  wallet_address :: jsval
  taral_amount :: jsval
  rvlng_amount :: jsval

type_synonym allocations = "string \<rightharpoonup> allocation"

fun load_records :: "csv_record list \<Rightarrow> allocations \<Rightarrow> allocations option" where
  "load_records [] allocations = Some allocations"
| "load_records (r # rs) allocations =
     (case wallet_address r of
        JStr a \<Rightarrow>
          load_records rs
            (allocations(toLowerCase a \<mapsto>
               \<lparr>taral = parseFloat (taral_amount r), rvlng = parseFloat (rvlng_amount r)\<rparr>))
      | _ \<Rightarrow> None)"

definition loadWalletAllocations :: "csv_record list option \<Rightarrow> allocations option" where
  "loadWalletAllocations source =
     (case source of None \<Rightarrow> None | Some records \<Rightarrow> load_records records Map.empty)"

text \<open>
  \<open>WALLET_ALLOCATIONS[key]\<close> on the object built by the loader. The map holds the object's
  own properties. The object is created by \<open>{}\<close>, so a key that is not an own property is
  looked up in \<open>Object.prototype\<close>, whose properties are functions, or the prototype
  object itself for \<open>__proto__\<close>: all truthy, none with a \<open>taral\<close> or \<open>rvlng\<close> property.
\<close>

definition Object_prototype_keys :: "string list" where
  "Object_prototype_keys =
     [''constructor'', ''__proto__'', ''hasOwnProperty'', ''isPrototypeOf'',
      ''propertyIsEnumerable'', ''toLocaleString'', ''toString'', ''valueOf'',
      ''__defineGetter__'', ''__defineSetter__'', ''__lookupGetter__'', ''__lookupSetter__'']"

datatype property = Missing | Inherited | Own allocation

definition get_property :: "allocations \<Rightarrow> string \<Rightarrow> property" where
  "get_property obj key =
     (case obj key of
        Some a \<Rightarrow> Own a
      | None \<Rightarrow> if key \<in> set Object_prototype_keys then Inherited else Missing)"

text \<open>
  The message of the \<open>TypeError\<close> thrown when a property is read from \<open>undefined\<close>; the
  name of the property stands between single quotes.
\<close>

definition cannot_read :: "string \<Rightarrow> string" where
  "cannot_read key =
     ''Cannot read properties of undefined (reading '' @ [CHR 0x27] @ key @ [CHR 0x27] @ '')''"

text \<open>
  \<open>getUserAllocation\<close> (lines 76-85). The global \<open>WALLET_ALLOCATIONS\<close> is a parameter. The
  result is \<open>null\<close>, a number, or \<open>undefined\<close> when the property read from an inherited
  object does not exist. Indexing \<open>undefined\<close> throws a \<open>TypeError\<close> (\<open>Inl\<close>).
\<close>

datatype allocation_value = Null | Undefined | Amount number

definition getUserAllocation ::
  "allocations option \<Rightarrow> string \<Rightarrow> string \<Rightarrow> string + allocation_value" where
  "getUserAllocation WALLET_ALLOCATIONS userAddress tokenType =
     (let normalizedAddress = toLowerCase userAddress in
      case WALLET_ALLOCATIONS of
        None \<Rightarrow> Inl (cannot_read normalizedAddress)
      | Some obj \<Rightarrow>
          (case get_property obj normalizedAddress of
             Missing \<Rightarrow> Inr Null
           | Inherited \<Rightarrow> Inr Undefined
           | Own allocation \<Rightarrow>
               Inr (Amount (if toUpperCase tokenType = ''TARAL''
                            then taral allocation else rvlng allocation))))"

text \<open>The number an allocation value stands for in \<open>claimAmount - userAllocation\<close>.\<close>

fun ToNumber :: "allocation_value \<Rightarrow> number" where
  "ToNumber Null = Finite 0"
| "ToNumber Undefined = NaN"
| "ToNumber (Amount a) = a"

section \<open>The store\<close>

text \<open>
  The tables \<open>claims\<close> and \<open>users\<close> are lists of rows with the columns the queries name.
  The schema is not part of the sources: numeric columns hold the number they were given,
  the sums the engine computes in \<open>UPDATE users\<close> are sums of doubles, text columns hold
  the text they were given, no constraint is assumed and no statement of the engine
  fails. A failing statement would end in the \<open>catch\<close> block with \<open>ROLLBACK\<close> and
  leave the store as it was, so it would add no store to those the model reaches.
\<close>

record claims_row =
  claims_id :: nat
  claim_id :: string
  user_address :: string
  token_type :: string
  claims_amount :: number
  transaction_hash :: string
  conversion_rate :: number
  nova_amount :: number
  claims_timestamp :: string
  status :: string
  created_at :: string

record users_row =
  address :: string
  first_claim_at :: string
  last_claim_at :: string
  taral_claimed :: number
  rvlng_claimed :: number
  total_nova :: number
  updated_at :: string

record db =
  claims :: "claims_row list"
  users :: "users_row list"
  claims_id_seq :: nat

definition empty_db :: db where
  "empty_db = \<lparr>claims = [], users = [], claims_id_seq = 1\<rparr>"

text \<open>
  What the handler takes from its environment: \<open>Date.now().toString()\<close>, the seven
  characters cut from \<open>Math.random().toString(36)\<close>, \<open>new Date().toISOString()\<close>, the
  engine's \<open>CURRENT_TIMESTAMP\<close>, and the text of a number (\<open>Number.prototype.toString\<close>).
\<close>

record env =
  Date_now :: string
  Math_random :: string
  Date_toISOString :: string
  CURRENT_TIMESTAMP :: string
  Number_toString :: "number \<Rightarrow> string"

text \<open>The text the driver sends for a query parameter that is not \<open>null\<close>: \<open>String(v)\<close>.\<close>

fun String_js :: "env \<Rightarrow> jsval \<Rightarrow> string" where
  "String_js e (JStr s) = s"
| "String_js e (JNum n) = Number_toString e n"
| "String_js e (JBool b) = (if b then ''true'' else ''false'')"
| "String_js e JNull = ''null''"
| "String_js e JUndefined = ''undefined''"

text \<open>\<^verbatim>\<open>SELECT id, created_at FROM claims WHERE transaction_hash = $1\<close>\<close>

definition select_claims_by_hash :: "string \<Rightarrow> db \<Rightarrow> claims_row list" where
  "select_claims_by_hash h s = filter (\<lambda>r. transaction_hash r = h) (claims s)"

text \<open>\<^verbatim>\<open>SELECT id, created_at FROM claims WHERE user_address = $1 AND token_type = $2\<close>\<close>

definition select_claims_by_user_token :: "string \<Rightarrow> string \<Rightarrow> db \<Rightarrow> claims_row list" where
  "select_claims_by_user_token a t s =
     filter (\<lambda>r. user_address r = a \<and> token_type r = t) (claims s)"

text \<open>\<^verbatim>\<open>SELECT ... FROM users WHERE address = $1\<close>\<close>

definition select_users :: "string \<Rightarrow> db \<Rightarrow> users_row list" where
  "select_users a s = filter (\<lambda>u. address u = a) (users s)"

text \<open>\<^verbatim>\<open>SELECT COUNT(*) as total_claims FROM claims WHERE user_address = $1\<close>\<close>

definition count_claims :: "string \<Rightarrow> db \<Rightarrow> nat" where
  "count_claims a s = length (filter (\<lambda>r. user_address r = a) (claims s))"

text \<open>
  Modelled from the spec: the defaults of the columns of \<open>users\<close> that the statement
  \<^verbatim>\<open>INSERT INTO users (address, first_claim_at, last_claim_at) VALUES ($1, $2, $2)\<close>
  does not name (the schema is missing). A wallet account is created with totals \<open>0\<close>;
  \<open>updated_at\<close> is the engine's clock.
\<close>

definition insert_user :: "env \<Rightarrow> string \<Rightarrow> string \<Rightarrow> db \<Rightarrow> db" where
  "insert_user e a ts s =
     s\<lparr>users := users s @
        [\<lparr>address = a, first_claim_at = ts, last_claim_at = ts,
          taral_claimed = Finite 0, rvlng_claimed = Finite 0, total_nova = Finite 0,
          updated_at = CURRENT_TIMESTAMP e\<rparr>]\<rparr>"

text \<open>
  Modelled from the spec: the defaults of the columns of \<open>claims\<close> that the statement
  \<^verbatim>\<open>INSERT INTO claims (claim_id, user_address, token_type, amount, transaction_hash,
  conversion_rate, nova_amount, timestamp) VALUES ($1, ..., $8)\<close> does not name (the schema is
  missing). The status is fixed to \<open>completed\<close>, the creation time is assigned by the
  engine, and \<open>id\<close>, the identifier the two look-ups select, comes from a counter.
\<close>

definition insert_claim ::
  "env \<Rightarrow> string \<Rightarrow> string \<Rightarrow> string \<Rightarrow> number \<Rightarrow> string \<Rightarrow> number \<Rightarrow> number \<Rightarrow> string
   \<Rightarrow> db \<Rightarrow> db" where
  "insert_claim e cid a t amt h r nova ts s =
     s\<lparr>claims := claims s @
        [\<lparr>claims_id = claims_id_seq s, claim_id = cid, user_address = a, token_type = t,
          claims_amount = amt, transaction_hash = h, conversion_rate = r, nova_amount = nova,
          claims_timestamp = ts, status = ''completed'', created_at = CURRENT_TIMESTAMP e\<rparr>],
       claims_id_seq := Suc (claims_id_seq s)\<rparr>"

text \<open>\<^verbatim>\<open>UPDATE users SET taral_claimed = taral_claimed + $1, total_nova = total_nova + $2,
  last_claim_at = $3, updated_at = CURRENT_TIMESTAMP WHERE address = $4\<close>\<close>

definition update_users_taral :: "env \<Rightarrow> number \<Rightarrow> number \<Rightarrow> string \<Rightarrow> string \<Rightarrow> db \<Rightarrow> db" where
  "update_users_taral e amt nova ts a s =
     s\<lparr>users := map (\<lambda>u. if address u = a
                          then u\<lparr>taral_claimed := js_add (taral_claimed u) amt,
                                 total_nova := js_add (total_nova u) nova,
                                 last_claim_at := ts,
                                 updated_at := CURRENT_TIMESTAMP e\<rparr>
                          else u) (users s)\<rparr>"

text \<open>The same statement with \<open>rvlng_claimed\<close> in place of \<open>taral_claimed\<close>.\<close>

definition update_users_rvlng :: "env \<Rightarrow> number \<Rightarrow> number \<Rightarrow> string \<Rightarrow> string \<Rightarrow> db \<Rightarrow> db" where
  "update_users_rvlng e amt nova ts a s =
     s\<lparr>users := map (\<lambda>u. if address u = a
                          then u\<lparr>rvlng_claimed := js_add (rvlng_claimed u) amt,
                                 total_nova := js_add (total_nova u) nova,
                                 last_claim_at := ts,
                                 updated_at := CURRENT_TIMESTAMP e\<rparr>
                          else u) (users s)\<rparr>"

text \<open>The statements a handler sends over its connection, in the order sent.\<close>

datatype stmt =
    BEGIN
  | COMMIT
  | ROLLBACK
  | SELECT_claims_by_hash string
  | SELECT_claims_by_user_token string string
  | SELECT_users string
  | INSERT_users string
  | INSERT_claims string
  | UPDATE_users string
  | SELECT_users_totals string
  | SELECT_COUNT_claims string

text \<open>Whether a statement reads or writes rows of \<open>claims\<close> or \<open>users\<close>.\<close>

fun reads_or_writes_rows :: "stmt \<Rightarrow> bool" where
  "reads_or_writes_rows BEGIN = False"
| "reads_or_writes_rows COMMIT = False"
| "reads_or_writes_rows ROLLBACK = False"
| "reads_or_writes_rows _ = True"

section \<open>POST /wallet/claim\<close>

text \<open>The fields the handler takes from \<open>req.body\<close>.\<close>

record body =
  tokenType :: jsval
  amount :: jsval
  transactionHash :: jsval
  userAddress :: jsval
  timestamp :: jsval
  conversionRate :: jsval

text \<open>The \<open>data\<close> of the success response.\<close>

record claim_data =
  claimId :: string
  res_tokenType :: string
  amountClaimed :: number
  novaReceived :: number
  res_transactionHash :: jsval
  res_userAddress :: string
  res_status :: string
  res_timestamp :: jsval
  taralClaimed :: number
  rvlngClaimed :: number
  totalNova :: number
  totalClaims :: nat

text \<open>
  The responses of the handler, named as the specification names them:
  \<^item> \<open>MissingFields\<close>: 400, \<^verbatim>\<open>Missing required fields: ...\<close>
  \<^item> \<open>InvalidTokenKind\<close>: 400, \<^verbatim>\<open>Invalid token type. Must be TARAL or RVLNG\<close>
  \<^item> \<open>InvalidAmount\<close>: 400, \<^verbatim>\<open>Invalid amount. Must be a positive number\<close>
  \<^item> \<open>InvalidRate\<close>: 400, \<^verbatim>\<open>Invalid conversion rate. Must be a positive number\<close>
  \<^item> \<open>UnknownWallet\<close>: 403, \<^verbatim>\<open>Wallet address not found in allocation list\<close>
  \<^item> \<open>AllocationMismatch\<close>: 400, \<^verbatim>\<open>Invalid claim amount. ...\<close>, with \<open>expectedAmount\<close> and
    \<open>providedAmount\<close>
  \<^item> \<open>DuplicateTransaction\<close>: 409, \<^verbatim>\<open>Transaction already processed\<close>, with
    \<open>existingClaimId\<close> and \<open>processedAt\<close>
  \<^item> \<open>AlreadyClaimed\<close>: 409, \<^verbatim>\<open>... already claimed by this wallet\<close>, with \<open>existingClaimId\<close>
    and \<open>claimedAt\<close>
  \<^item> \<open>Success\<close>: 200
  \<^item> \<open>InternalError\<close>: 500, \<^verbatim>\<open>Internal server error\<close>, with the message of the exception
\<close>

datatype response =
    MissingFields
  | InvalidTokenKind
  | InvalidAmount
  | InvalidRate
  | UnknownWallet
  | AllocationMismatch allocation_value number
  | DuplicateTransaction nat string
  | AlreadyClaimed nat string
  | Success claim_data
  | InternalError string

text \<open>
  How a block of the handler ends: it returns a response, it throws, or control goes on
  with the values computed so far.
\<close>

datatype 'a completion = Return response | Throw string | Normal 'a

record claim_locals =
  tokenType_string :: string
  claimAmount :: number
  rate :: number
  claimUserAddress :: string

text \<open>The literal \<open>0.01\<close> of line 151: the double nearest to one hundredth.\<close>

definition tolerance :: number where
  "tolerance = round_double (1 / 100)"

text \<open>
  Lines 104-160: the checks made before the first query. \<open>toUpperCase\<close> and
  \<open>toLowerCase\<close> exist on strings only; on any other truthy value the call throws a
  \<open>TypeError\<close>.
\<close>

definition validate_claim :: "allocations option \<Rightarrow> body \<Rightarrow> claim_locals completion" where
  "validate_claim WALLET_ALLOCATIONS b =
     (if \<not> truthy (tokenType b) \<or> \<not> truthy (amount b) \<or> \<not> truthy (transactionHash b)
         \<or> \<not> truthy (userAddress b)
      then Return MissingFields
      else
        case tokenType b of
          JStr tt \<Rightarrow>
            if toUpperCase tt \<notin> set [''TARAL'', ''RVLNG''] then Return InvalidTokenKind
            else
              let claimAmount = parseFloat (amount b) in
              if isNaN claimAmount \<or> js_le claimAmount (Finite 0) then Return InvalidAmount
              else
                let rate = (if truthy_number (parseFloat (conversionRate b))
                            then parseFloat (conversionRate b) else Finite 1) in
                if isNaN rate \<or> js_le rate (Finite 0) then Return InvalidRate
                else
                  (case userAddress b of
                     JStr ua \<Rightarrow>
                       let claimUserAddress = toLowerCase ua in
                       (case getUserAllocation WALLET_ALLOCATIONS claimUserAddress tt of
                          Inl message \<Rightarrow> Throw message
                        | Inr userAllocation \<Rightarrow>
                            if userAllocation = Null then Return UnknownWallet
                            else if js_gt (Math_abs (js_sub claimAmount (ToNumber userAllocation)))
                                      tolerance
                            then Return (AllocationMismatch userAllocation claimAmount)
                            else Normal \<lparr>tokenType_string = tt, claimAmount = claimAmount,
                                          rate = rate, claimUserAddress = claimUserAddress\<rparr>)
                   | _ \<Rightarrow> Throw ''userAddress.toLowerCase is not a function'')
        | _ \<Rightarrow> Throw ''tokenType.toUpperCase is not a function'')"

text \<open>
  Lines 162-286: the two look-ups, the inserts, the update of the totals and the commit.
  The result is the response, the store afterwards and the statements sent. A
  \<open>ROLLBACK\<close> leaves the store as it was at \<open>BEGIN\<close>.
\<close>

definition submit :: "env \<Rightarrow> db \<Rightarrow> body \<Rightarrow> claim_locals \<Rightarrow> response \<times> db \<times> stmt list" where
  "submit e s b l =
     (let hash = String_js e (transactionHash b);
          token = toUpperCase (tokenType_string l);
          a = claimUserAddress l
      in
      case select_claims_by_hash hash s of
        existing # _ \<Rightarrow>
          (DuplicateTransaction (claims_id existing) (created_at existing), s,
           [SELECT_claims_by_hash hash, ROLLBACK])
      | [] \<Rightarrow>
          (case select_claims_by_user_token a token s of
             existing # _ \<Rightarrow>
               (AlreadyClaimed (claims_id existing) (created_at existing), s,
                [SELECT_claims_by_hash hash, SELECT_claims_by_user_token a token, ROLLBACK])
           | [] \<Rightarrow>
               let claimId = Date_now e @ ''_'' @ Math_random e;
                   novaAmount = js_mul (claimAmount l) (rate l);
                   claimTimestamp = (if truthy (timestamp b) then timestamp b
                                     else JStr (Date_toISOString e));
                   ts = String_js e claimTimestamp;
                   new_user = (select_users a s = []);
                   s1 = (if new_user then insert_user e a ts s else s);
                   s2 = insert_claim e claimId a token (claimAmount l) hash (rate l) novaAmount ts s1;
                   s3 = (if token = ''TARAL''
                         then update_users_taral e (claimAmount l) novaAmount ts a s2
                         else if token = ''RVLNG''
                         then update_users_rvlng e (claimAmount l) novaAmount ts a s2
                         else s2);
                   sent = [SELECT_claims_by_hash hash, SELECT_claims_by_user_token a token,
                           SELECT_users a]
                          @ (if new_user then [INSERT_users a] else [])
                          @ [INSERT_claims hash]
                          @ (if token = ''TARAL'' \<or> token = ''RVLNG'' then [UPDATE_users a] else [])
                          @ [SELECT_users_totals a, SELECT_COUNT_claims a, COMMIT]
               in
               (case select_users a s3 of
                  userStats # _ \<Rightarrow>
                    (Success
                       \<lparr>claimId = claimId, res_tokenType = token, amountClaimed = claimAmount l,
                        novaReceived = novaAmount, res_transactionHash = transactionHash b,
                        res_userAddress = a, res_status = ''completed'',
                        res_timestamp = claimTimestamp,
                        taralClaimed = taral_claimed userStats,
                        rvlngClaimed = rvlng_claimed userStats,
                        totalNova = total_nova userStats,
                        totalClaims = count_claims a s3\<rparr>,
                     s3, sent)
                | [] \<Rightarrow>
                    (InternalError (cannot_read ''taral_claimed''), s3,
                     sent @ [ROLLBACK]))))"

text \<open>
  The handler (lines 88-305): it takes a connection and sends \<open>BEGIN\<close> before the first
  check. A check that fails returns its response at once. An exception is caught, the
  handler sends \<open>ROLLBACK\<close> and answers 500.
\<close>

definition post_claim ::
  "allocations option \<Rightarrow> env \<Rightarrow> db \<Rightarrow> body \<Rightarrow> response \<times> db \<times> stmt list" where
  "post_claim WALLET_ALLOCATIONS e s b =
     (case validate_claim WALLET_ALLOCATIONS b of
        Return r \<Rightarrow> (r, s, [BEGIN])
      | Throw message \<Rightarrow> (InternalError message, s, [BEGIN, ROLLBACK])
      | Normal l \<Rightarrow>
          (case submit e s b l of (r, s', sent) \<Rightarrow> (r, s', BEGIN # sent)))"

section \<open>GET /wallet/allocations/:address\<close>

text \<open>One entry of \<open>data.allocations\<close> in the response.\<close>

record token_status =
  allocated :: allocation_value
  claimed :: number
  remaining :: number
  canClaim :: bool

datatype allocations_response =
    Allocations token_status token_status
  | NotFound
  | ServerError

text \<open>
  The \<open>forEach\<close> over the rows of \<^verbatim>\<open>SELECT token_type, amount FROM claims WHERE
  user_address = $1\<close> (lines 327-335), on the pair \<open>(claimed.taral, claimed.rvlng)\<close>. The
  driver returns the amount as text and \<open>parseFloat\<close> reads the stored number back.
\<close>

fun add_claimed :: "claims_row list \<Rightarrow> number \<times> number \<Rightarrow> number \<times> number" where
  "add_claimed [] acc = acc"
| "add_claimed (claim # rows) (t, r) =
     add_claimed rows
       (if token_type claim = ''TARAL'' then (js_add t (claims_amount claim), r)
        else if token_type claim = ''RVLNG'' then (t, js_add r (claims_amount claim))
        else (t, r))"

text \<open>\<open>allocation.taral\<close> and \<open>allocation.rvlng\<close> on what the table look-up gave.\<close>

fun get_taral :: "property \<Rightarrow> allocation_value" where
  "get_taral (Own a) = Amount (taral a)"
| "get_taral _ = Undefined"

fun get_rvlng :: "property \<Rightarrow> allocation_value" where
  "get_rvlng (Own a) = Amount (rvlng a)"
| "get_rvlng _ = Undefined"

text \<open>
  The handler (lines 308-368). Indexing the table throws when the table is \<open>undefined\<close>;
  the \<open>catch\<close> answers 500.
\<close>

definition get_allocations :: "allocations option \<Rightarrow> db \<Rightarrow> string \<Rightarrow> allocations_response" where
  "get_allocations WALLET_ALLOCATIONS s param =
     (let address = toLowerCase param in
      case WALLET_ALLOCATIONS of
        None \<Rightarrow> ServerError
      | Some obj \<Rightarrow>
          (case get_property obj address of
             Missing \<Rightarrow> NotFound
           | allocation \<Rightarrow>
               let claimedTokens = filter (\<lambda>r. user_address r = address) (claims s);
                   (claimed_taral, claimed_rvlng) = add_claimed claimedTokens (Finite 0, Finite 0);
                   taralRemaining =
                     Math_max (Finite 0) (js_sub (ToNumber (get_taral allocation)) claimed_taral);
                   rvlngRemaining =
                     Math_max (Finite 0) (js_sub (ToNumber (get_rvlng allocation)) claimed_rvlng)
               in Allocations
                    \<lparr>allocated = get_taral allocation, claimed = claimed_taral,
                     remaining = taralRemaining, canClaim = js_gt taralRemaining (Finite 0)\<rparr>
                    \<lparr>allocated = get_rvlng allocation, claimed = claimed_rvlng,
                     remaining = rvlngRemaining, canClaim = js_gt rvlngRemaining (Finite 0)\<rparr>))"

section \<open>Stores the handler can produce\<close>

text \<open>
  The stores reached from the empty one by requests handled one after the other, each
  with any allocation table and any environment.
\<close>

inductive reachable :: "db \<Rightarrow> bool" where
  reachable_empty: "reachable empty_db"
| reachable_claim:
    "reachable s \<Longrightarrow> post_claim WALLET_ALLOCATIONS e s b = (r, s', sent) \<Longrightarrow> reachable s'"

text \<open>The two uniqueness invariants of the data model.\<close>

definition unique_transactions :: "db \<Rightarrow> bool" where
  "unique_transactions s = distinct (map transaction_hash (claims s))"

definition unique_pairs :: "db \<Rightarrow> bool" where
  "unique_pairs s = distinct (map (\<lambda>r. (user_address r, token_type r)) (claims s))"

text \<open>The sum of a list of numbers, from \<open>0\<close>.\<close>

definition js_sum :: "number list \<Rightarrow> number" where
  "js_sum ns = foldl js_add (Finite 0) ns"

text \<open>The amounts claimed by a wallet for a token type.\<close>

definition claimed_amounts :: "db \<Rightarrow> string \<Rightarrow> string \<Rightarrow> number list" where
  "claimed_amounts s a t =
     map claims_amount (filter (\<lambda>r. user_address r = a \<and> token_type r = t) (claims s))"

text \<open>
  The row a successful claim adds: its columns come from the values the checks computed,
  and both look-ups found nothing before it was written.
\<close>

definition appended :: "env \<Rightarrow> db \<Rightarrow> body \<Rightarrow> claim_locals \<Rightarrow> claims_row \<Rightarrow> bool" where
  "appended e s b l row =
     (user_address row = claimUserAddress l
      \<and> token_type row = toUpperCase (tokenType_string l)
      \<and> transaction_hash row = String_js e (transactionHash b)
      \<and> claims_amount row = claimAmount l
      \<and> conversion_rate row = rate l
      \<and> nova_amount row = js_mul (claimAmount l) (rate l)
      \<and> select_claims_by_hash (transaction_hash row) s = []
      \<and> select_claims_by_user_token (user_address row) (token_type row) s = [])"

section \<open>Example data\<close>

text \<open>
  The scenario of the specification, with \<open>TARAL\<close> as the first token kind. No number is
  sent as text in the examples, so the text of a number is left trivial.
\<close>

definition example_allocations :: "allocations option" where
  "example_allocations = Some [''0xabc'' \<mapsto> \<lparr>taral = Finite 50, rvlng = Finite 0\<rparr>]"

definition example_env :: env where
  "example_env =
     \<lparr>Date_now = ''1700000000000'', Math_random = ''k3j5x0q'',
      Date_toISOString = ''2023-11-14T22:13:20.000Z'',
      CURRENT_TIMESTAMP = ''2023-11-14 22:13:20.000'',
      Number_toString = (\<lambda>n. ''0'')\<rparr>"

definition example_body :: body where
  "example_body =
     \<lparr>tokenType = JStr ''TARAL'', amount = JStr ''50'', transactionHash = JStr ''tx1'',
      userAddress = JStr ''0xABC'', timestamp = JUndefined, conversionRate = JStr ''2''\<rparr>"

text \<open>The row and the store the example request creates in the empty store.\<close>

definition example_row :: claims_row where
  "example_row =
     \<lparr>claims_id = 1, claim_id = ''1700000000000_k3j5x0q'', user_address = ''0xabc'',
      token_type = ''TARAL'', claims_amount = Finite 50, transaction_hash = ''tx1'',
      conversion_rate = Finite 2, nova_amount = Finite 100,
      claims_timestamp = ''2023-11-14T22:13:20.000Z'', status = ''completed'',
      created_at = ''2023-11-14 22:13:20.000''\<rparr>"

definition example_db :: db where
  "example_db =
     \<lparr>claims = [example_row],
      users = [\<lparr>address = ''0xabc'', first_claim_at = ''2023-11-14T22:13:20.000Z'',
                last_claim_at = ''2023-11-14T22:13:20.000Z'', taral_claimed = Finite 50,
                rvlng_claimed = Finite 0, total_nova = Finite 100,
                updated_at = ''2023-11-14 22:13:20.000''\<rparr>],
      claims_id_seq = 2\<rparr>"

text \<open>
  The double nearest to one tenth, the number \<open>parseFloat\<close> reads from \<open>"0.1"\<close>. Eight
  times it is the double nearest to eight tenths, without rounding. A wallet allocated one
  tenth and its request at rate 3; a wallet allocated eight tenths and a store with
  eight claims of one tenth each for it.
\<close>

definition tenth :: rat where
  "tenth = 3602879701896397 / 36028797018963968"

definition tenth_allocations :: "allocations option" where
  "tenth_allocations = Some [''0xabc'' \<mapsto> \<lparr>taral = Finite tenth, rvlng = Finite 0\<rparr>]"

definition tenth_body :: body where
  "tenth_body = example_body\<lparr>amount := JStr ''0.1'', conversionRate := JStr ''3''\<rparr>"

definition eight_tenths_allocations :: "allocations option" where
  "eight_tenths_allocations =
     Some [''0xabc'' \<mapsto> \<lparr>taral = Finite (8 * tenth), rvlng = Finite 0\<rparr>]"

definition eight_claims_db :: db where
  "eight_claims_db =
     \<lparr>claims =
        map (\<lambda>d. example_row\<lparr>claims_id := nat (digit_value d), claim_id := ''claim'' @ [d],
                              transaction_hash := ''tx'' @ [d], claims_amount := Finite tenth,
                              conversion_rate := Finite 1, nova_amount := Finite tenth\<rparr>)
          ''12345678'',
      users = [],
      claims_id_seq = 9\<rparr>"

section \<open>Properties of the checks and of the ledger\<close>

subsection \<open>What the checks let through\<close>

lemma validate_claim_Normal:
  assumes "validate_claim W b = Normal l"
  shows "\<exists>tt ua. tokenType b = JStr tt \<and> userAddress b = JStr ua
           \<and> tokenType_string l = tt \<and> claimUserAddress l = toLowerCase ua
           \<and> toUpperCase tt \<in> {''TARAL'', ''RVLNG''}
           \<and> claimAmount l = parseFloat (amount b)
           \<and> js_gt (claimAmount l) (Finite 0) \<and> js_gt (rate l) (Finite 0)"
  using assms
  apply (simp add: validate_claim_def Let_def split: if_splits jsval.splits sum.splits)
  apply (auto simp: js_le_def js_gt_def)
  done

lemma validate_claim_Return:
  assumes "validate_claim W b = Return x"
  shows "x \<in> {MissingFields, InvalidTokenKind, InvalidAmount, InvalidRate, UnknownWallet}
         \<or> (\<exists>u c. x = AllocationMismatch u c)"
  using assms
  by (auto simp: validate_claim_def Let_def split: if_splits jsval.splits sum.splits)

subsection \<open>Rows selected by a unique key\<close>

lemma filter_unique:
  assumes "distinct (map f xs)" and "r \<in> set xs"
  shows "filter (\<lambda>x. f x = f r) xs = [r]"
  using assms
proof (induction xs)
  case Nil
  then show ?case by simp
next
  case (Cons x xs)
  show ?case
  proof (cases "x = r")
    case True
    with Cons.prems have "f r \<notin> f ` set xs" by simp
    then have "\<forall>x\<in>set xs. f x \<noteq> f r" by (metis image_eqI)
    then have "filter (\<lambda>x. f x = f r) xs = []" by simp
    with True show ?thesis by simp
  next
    case False
    with Cons.prems have "r \<in> set xs" and "distinct (map f xs)" and "f x \<noteq> f r"
      by auto
    with Cons.IH show ?thesis by simp
  qed
qed

subsection \<open>The effect of the ledger on the table of claims\<close>

lemma claims_insert_user [simp]: "claims (insert_user e a ts s) = claims s"
  by (simp add: insert_user_def)

lemma claims_update_users_taral [simp]: "claims (update_users_taral e x y ts a s) = claims s"
  by (simp add: update_users_taral_def)

lemma claims_update_users_rvlng [simp]: "claims (update_users_rvlng e x y ts a s) = claims s"
  by (simp add: update_users_rvlng_def)

lemma claims_insert_claim [simp]:
  "claims (insert_claim e cid a t amt h r nova ts s) =
     claims s @ [\<lparr>claims_id = claims_id_seq s, claim_id = cid, user_address = a, token_type = t,
          claims_amount = amt, transaction_hash = h, conversion_rate = r, nova_amount = nova,
          claims_timestamp = ts, status = ''completed'', created_at = CURRENT_TIMESTAMP e\<rparr>]"
  by (simp add: insert_claim_def)

lemma submit_duplicate:
  assumes "select_claims_by_hash (String_js e (transactionHash b)) s = r # rs"
  shows "submit e s b l =
           (DuplicateTransaction (claims_id r) (created_at r), s,
            [SELECT_claims_by_hash (String_js e (transactionHash b)), ROLLBACK])"
  using assms by (simp add: submit_def Let_def)

lemma submit_already_claimed:
  assumes "select_claims_by_hash (String_js e (transactionHash b)) s = []"
    and "select_claims_by_user_token (claimUserAddress l) (toUpperCase (tokenType_string l)) s
           = r # rs"
  shows "submit e s b l =
           (AlreadyClaimed (claims_id r) (created_at r), s,
            [SELECT_claims_by_hash (String_js e (transactionHash b)),
             SELECT_claims_by_user_token (claimUserAddress l) (toUpperCase (tokenType_string l)),
             ROLLBACK])"
  using assms by (simp add: submit_def Let_def)

lemma submit_claims:
  assumes "submit e s b l = (r, s', sent)"
  shows "s' = s \<and> (\<forall>d. r \<noteq> Success d)
         \<or> (\<exists>row. claims s' = claims s @ [row] \<and> appended e s b l row)"
  using assms
  by (auto simp: submit_def Let_def appended_def split: list.splits if_splits)

lemma post_claim_claims:
  assumes "post_claim W e s b = (r, s', sent)"
  shows "s' = s \<and> (\<forall>d. r \<noteq> Success d)
         \<or> (\<exists>l row. validate_claim W b = Normal l \<and> claims s' = claims s @ [row]
                \<and> appended e s b l row)"
proof (cases "validate_claim W b")
  case (Return x)
  with assms validate_claim_Return [OF Return] show ?thesis by (auto simp: post_claim_def)
next
  case (Throw m)
  with assms show ?thesis by (auto simp: post_claim_def)
next
  case (Normal l)
  with assms obtain sent' where "submit e s b l = (r, s', sent')"
    by (auto simp: post_claim_def split: prod.splits)
  from submit_claims [OF this] Normal show ?thesis by blast
qed

lemma appended_fresh:
  assumes "appended e s b l row"
  shows "transaction_hash row \<notin> transaction_hash ` set (claims s)"
    and "(user_address row, token_type row)
           \<notin> (\<lambda>r. (user_address r, token_type r)) ` set (claims s)"
  using assms
  by (auto simp: appended_def select_claims_by_hash_def select_claims_by_user_token_def
        filter_empty_conv)

subsection \<open>The uniqueness invariants hold in every reachable store\<close>

lemma post_claim_invariants:
  assumes "post_claim W e s b = (r, s', sent)"
    and "unique_transactions s" and "unique_pairs s"
  shows "unique_transactions s' \<and> unique_pairs s'"
  using post_claim_claims [OF assms(1)] assms(2,3) appended_fresh
  by (auto simp: unique_transactions_def unique_pairs_def)

lemma reachable_invariants: "reachable s \<Longrightarrow> unique_transactions s \<and> unique_pairs s"
proof (induction rule: reachable.induct)
  case reachable_empty
  show ?case by (simp add: unique_transactions_def unique_pairs_def empty_db_def)
next
  case (reachable_claim s W e b r s' sent)
  then show ?case using post_claim_invariants by blast
qed

text \<open>Every row of a reachable store holds the product of its amount and its rate.\<close>

lemma reachable_derived_amounts:
  "reachable s \<Longrightarrow>
     \<forall>r\<in>set (claims s). nova_amount r = js_mul (claims_amount r) (conversion_rate r)"
proof (induction rule: reachable.induct)
  case reachable_empty
  show ?case by (simp add: empty_db_def)
next
  case (reachable_claim s W e b r s' sent)
  from post_claim_claims [OF reachable_claim.hyps(2)] reachable_claim.IH
  show ?case by (auto simp: appended_def)
qed

lemma example_step:
  "fst (snd (post_claim example_allocations example_env empty_db example_body)) = example_db"
  by code_simp

lemma reachable_example_db: "reachable example_db"
proof -
  obtain r s' sent where
    p: "post_claim example_allocations example_env empty_db example_body = (r, s', sent)"
    by (metis prod_cases3)
  with example_step have "s' = example_db" by simp
  with p reachable_claim [OF reachable_empty] show ?thesis by blast
qed

subsection \<open>Responses of the two stages\<close>

lemma validate_claim_falsy:
  assumes "\<not> truthy (tokenType b) \<or> \<not> truthy (amount b) \<or> \<not> truthy (transactionHash b)
           \<or> \<not> truthy (userAddress b)"
  shows "validate_claim W b = Return MissingFields"
  using assms by (auto simp: validate_claim_def)

lemma submit_response:
  assumes "submit e s b l = (r, s', sent)"
  shows "(\<exists>i c. r = DuplicateTransaction i c) \<or> (\<exists>i c. r = AlreadyClaimed i c)
         \<or> (\<exists>d. r = Success d) \<or> (\<exists>m. r = InternalError m)"
  using assms
  by (auto simp: submit_def Let_def split: list.splits if_splits)

lemma submit_Success:
  assumes "submit e s b l = (Success d, s', sent)"
  shows "novaReceived d = js_mul (claimAmount l) (rate l) \<and> amountClaimed d = claimAmount l"
  using assms
  by (auto simp: submit_def Let_def split: list.splits if_splits)

lemma post_claim_rejected:
  assumes "post_claim W e s b = (r, s', sent)"
    and "r \<in> {MissingFields, InvalidTokenKind, InvalidAmount, InvalidRate, UnknownWallet}
         \<or> (\<exists>u c. r = AllocationMismatch u c)"
  shows "validate_claim W b = Return r \<and> s' = s \<and> sent = [BEGIN]"
proof (cases "validate_claim W b")
  case (Return x)
  with assms(1) show ?thesis by (simp add: post_claim_def)
next
  case (Throw m)
  with assms show ?thesis by (auto simp: post_claim_def)
next
  case (Normal l)
  with assms(1) obtain sent' where "submit e s b l = (r, s', sent')"
    by (auto simp: post_claim_def split: prod.splits)
  from submit_response [OF this] assms(2) show ?thesis by auto
qed

subsection \<open>Lower case is idempotent\<close>

lemma lower_letter_fixed:
  assumes "d \<in> set lower_letters"
  shows "map_of (zip upper_letters lower_letters) d = None"
proof -
  have "set lower_letters \<inter> set upper_letters = {}" by code_simp
  with assms have "d \<notin> set upper_letters" by blast
  moreover have "length upper_letters = length lower_letters"
    by (simp add: lower_letters_def upper_letters_def)
  ultimately show ?thesis by (simp add: map_of_zip_is_None)
qed

lemma toLowerCase_idem [simp]: "toLowerCase (toLowerCase s) = toLowerCase s"
proof -
  have "(case map_of (zip upper_letters lower_letters)
               (case map_of (zip upper_letters lower_letters) c of Some d \<Rightarrow> d | None \<Rightarrow> c)
         of Some d \<Rightarrow> d | None \<Rightarrow>
               (case map_of (zip upper_letters lower_letters) c of Some d \<Rightarrow> d | None \<Rightarrow> c))
        = (case map_of (zip upper_letters lower_letters) c of Some d \<Rightarrow> d | None \<Rightarrow> c)" for c
  proof (cases "map_of (zip upper_letters lower_letters) c")
    case None
    then show ?thesis by simp
  next
    case (Some d)
    then have "d \<in> set lower_letters"
      by (meson map_of_SomeD set_zip_rightD)
    with Some show ?thesis by (simp add: lower_letter_fixed)
  qed
  then show ?thesis by (simp add: toLowerCase_def)
qed

subsection \<open>The order of the checks\<close>

text \<open>
  With a loaded table, a rejection is returned only after every earlier check has
  passed, and \<open>UnknownWallet\<close> is the answer exactly when the first four checks pass and
  the lower-case address is neither an own key of the table nor a key inherited from
  \<open>Object.prototype\<close>. The zero in the fourth line is the conversion rate that \<open>||\<close> has
  replaced by \<open>1\<close>.
\<close>

lemma validate_claim_short_circuit:
  assumes "validate_claim (Some obj) b = Return r"
  shows "(r \<noteq> MissingFields \<longrightarrow>
            truthy (tokenType b) \<and> truthy (amount b) \<and> truthy (transactionHash b)
            \<and> truthy (userAddress b))
       \<and> (r \<notin> {MissingFields, InvalidTokenKind} \<longrightarrow>
            (\<exists>tt. tokenType b = JStr tt \<and> toUpperCase tt \<in> {''TARAL'', ''RVLNG''}))
       \<and> (r \<notin> {MissingFields, InvalidTokenKind, InvalidAmount} \<longrightarrow>
            js_gt (parseFloat (amount b)) (Finite 0))
       \<and> (r \<notin> {MissingFields, InvalidTokenKind, InvalidAmount, InvalidRate} \<longrightarrow>
            \<not> js_le (parseFloat (conversionRate b)) (Finite 0)
            \<or> parseFloat (conversionRate b) = Finite 0)
       \<and> (r = UnknownWallet \<longleftrightarrow>
            r \<notin> {MissingFields, InvalidTokenKind, InvalidAmount, InvalidRate}
            \<and> (\<exists>ua. userAddress b = JStr ua \<and> obj (toLowerCase ua) = None
                  \<and> toLowerCase ua \<notin> set Object_prototype_keys))"
  using assms
  apply (simp add: validate_claim_def Let_def getUserAllocation_def get_property_def
      split: if_splits jsval.splits sum.splits option.splits)
  apply (auto simp: js_le_def js_gt_def truthy_number_def split: if_splits)
  done

subsection \<open>Arithmetic of the allocation status\<close>

lemma js_mul_Finite: "js_mul (Finite x) (Finite y) = round_double (x * y)"
  by (simp add: js_mul_def)

lemma add_claimed_foldl:
  "add_claimed rows (t, r) =
     (foldl js_add t (map claims_amount (filter (\<lambda>c. token_type c = ''TARAL'') rows)),
      foldl js_add r (map claims_amount (filter (\<lambda>c. token_type c = ''RVLNG'') rows)))"
  by (induction rows arbitrary: t r) auto

lemma add_claimed_sums:
  "add_claimed (filter (\<lambda>r. user_address r = a) (claims s)) (Finite 0, Finite 0) =
     (js_sum (claimed_amounts s a ''TARAL''), js_sum (claimed_amounts s a ''RVLNG''))"
  by (simp add: add_claimed_foldl js_sum_def claimed_amounts_def)

lemma Math_max_not_negative: "\<not> js_lt (Math_max (Finite 0) n) (Finite 0)"
  by (cases n) (auto simp: Math_max_def)

text \<open>Rounding keeps the sign: a negative rational rounds to nothing above zero.\<close>

lemma pow2_positive: "0 < pow2 e"
  by (simp add: pow2_def)

lemma nearest_even_nonnegative: "0 \<le> y \<Longrightarrow> 0 \<le> nearest_even y"
  by (auto simp: nearest_even_def Let_def)

lemma round_double_negative:
  assumes "x < 0"
  shows "round_double x = NegInfinity \<or> (\<exists>y\<le>0. round_double x = Finite y)"
proof -
  let ?e = "max (floor_log2 \<bar>x\<bar> - 52) (- 1074)"
  let ?m = "nearest_even (\<bar>x\<bar> / pow2 ?e)"
  have "0 \<le> \<bar>x\<bar> / pow2 ?e"
    using pow2_positive [of ?e] by simp
  then have "0 \<le> ?m" by (rule nearest_even_nonnegative)
  then have "0 \<le> of_int ?m * pow2 ?e"
    using pow2_positive [of ?e] by simp
  with assms show ?thesis
    by (simp add: round_double_def Let_def)
qed

lemma js_sub_of_less:
  assumes "js_lt a c"
  shows "js_sub a c = NegInfinity \<or> (\<exists>y\<le>0. js_sub a c = Finite y)"
proof (cases a)
  case (Finite x)
  note a = this
  show ?thesis
  proof (cases c)
    case (Finite y)
    with a assms have "x - y < 0" by simp
    from round_double_negative [OF this] a Finite show ?thesis
      by (simp add: js_sub_def)
  qed (use a assms in \<open>simp_all add: js_sub_def\<close>)
qed (use assms in \<open>cases c; simp add: js_sub_def\<close>)+

lemma Math_max_of_nonpositive:
  assumes "n = NegInfinity \<or> (\<exists>y\<le>0. n = Finite y)"
  shows "Math_max (Finite 0) n = Finite 0"
  using assms by (auto simp: Math_max_def)

lemma remaining_of_less:
  assumes "js_lt a c"
  shows "Math_max (Finite 0) (js_sub a c) = Finite 0"
  using js_sub_of_less [OF assms] by (rule Math_max_of_nonpositive)

section \<open>Claims\<close>

text \<open>
  C1. Let the transaction hash of the request be that of a row \<open>r\<close> already in the table,
  in a store where transaction hashes are unique. Whatever the other fields of the
  request are, the store after the call is the store before it, so \<open>r\<close> is unchanged and
  still the only row with that hash. If the request passes the checks made before the
  first query, the answer is \<open>DuplicateTransaction\<close> carrying the \<open>id\<close> and \<open>created_at\<close> of
  \<open>r\<close>, and the handler sends the look-up and \<open>ROLLBACK\<close> and nothing else.
\<close>

theorem duplicate_transaction:
  assumes "unique_transactions s"
    and "r \<in> set (claims s)"
    and "transaction_hash r = String_js e (transactionHash b)"
  shows "fst (snd (post_claim WALLET_ALLOCATIONS e s b)) = s
         \<and> filter (\<lambda>x. transaction_hash x = transaction_hash r)
             (claims (fst (snd (post_claim WALLET_ALLOCATIONS e s b)))) = [r]
         \<and> (\<forall>l. validate_claim WALLET_ALLOCATIONS b = Normal l \<longrightarrow>
               post_claim WALLET_ALLOCATIONS e s b =
                 (DuplicateTransaction (claims_id r) (created_at r), s,
                  [BEGIN, SELECT_claims_by_hash (transaction_hash r), ROLLBACK]))"
proof -
  have one: "filter (\<lambda>x. transaction_hash x = transaction_hash r) (claims s) = [r]"
    using assms(1,2) by (simp add: unique_transactions_def filter_unique)
  then have sel: "select_claims_by_hash (String_js e (transactionHash b)) s = [r]"
    using assms(3) by (simp add: select_claims_by_hash_def)
  have dup: "post_claim WALLET_ALLOCATIONS e s b =
                 (DuplicateTransaction (claims_id r) (created_at r), s,
                  [BEGIN, SELECT_claims_by_hash (transaction_hash r), ROLLBACK])"
    if "validate_claim WALLET_ALLOCATIONS b = Normal l" for l
    using that submit_duplicate [OF sel, of l] assms(3) by (simp add: post_claim_def)
  have same: "fst (snd (post_claim WALLET_ALLOCATIONS e s b)) = s"
  proof (cases "validate_claim WALLET_ALLOCATIONS b")
    case (Return x)
    then show ?thesis by (simp add: post_claim_def)
  next
    case (Throw m)
    then show ?thesis by (simp add: post_claim_def)
  next
    case (Normal l)
    then show ?thesis by (simp add: dup)
  qed
  from same one dup show ?thesis by simp
qed

text \<open>
  The store holds the example row (rate 2, timestamp assigned by the server); the request
  repeats its hash \<open>tx1\<close> with another spelling of the token type, another rate and
  a timestamp of its own.
\<close>

theorem duplicate_transaction_witness:
  "post_claim example_allocations example_env example_db
     (example_body\<lparr>tokenType := JStr ''Taral'', conversionRate := JStr ''3'',
                    timestamp := JStr ''2024-01-01T00:00:00.000Z''\<rparr>)
   = (DuplicateTransaction 1 ''2023-11-14 22:13:20.000'', example_db,
      [BEGIN, SELECT_claims_by_hash ''tx1'', ROLLBACK])
   \<and> filter (\<lambda>x. transaction_hash x = ''tx1'')
       (claims (fst (snd (post_claim example_allocations example_env example_db
          (example_body\<lparr>tokenType := JStr ''Taral'', conversionRate := JStr ''3'',
                         timestamp := JStr ''2024-01-01T00:00:00.000Z''\<rparr>)))))
     = [example_row]"
proof -
  let ?b = "example_body\<lparr>tokenType := JStr ''Taral'', conversionRate := JStr ''3'',
                          timestamp := JStr ''2024-01-01T00:00:00.000Z''\<rparr>"
  let ?l = "\<lparr>tokenType_string = ''Taral'', claimAmount = Finite 50,
             rate = Finite 3, claimUserAddress = ''0xabc''\<rparr>"
  have v: "validate_claim example_allocations ?b = Normal ?l" by code_simp
  have u: "unique_transactions example_db" by code_simp
  have m: "example_row \<in> set (claims example_db)" by code_simp
  have h: "transaction_hash example_row = String_js example_env (transactionHash ?b)"
    by code_simp
  have f: "transaction_hash example_row = ''tx1''" "claims_id example_row = 1"
    "created_at example_row = ''2023-11-14 22:13:20.000''"
    by (simp_all add: example_row_def)
  from duplicate_transaction [OF u m h, of example_allocations]
  have "filter (\<lambda>x. transaction_hash x = transaction_hash example_row)
          (claims (fst (snd (post_claim example_allocations example_env example_db ?b))))
        = [example_row]"
    and "\<forall>l. validate_claim example_allocations ?b = Normal l \<longrightarrow>
           post_claim example_allocations example_env example_db ?b =
             (DuplicateTransaction (claims_id example_row) (created_at example_row), example_db,
              [BEGIN, SELECT_claims_by_hash (transaction_hash example_row), ROLLBACK])"
    by blast+
  with v show ?thesis unfolding f by blast
qed

text \<open>
  C2. A request that passes the checks, whose hash is not in the table, from a wallet
  that has a row \<open>r\<close> for the same token type (the row's address is the lower-case address
  of the request, its token type the upper-case token type), in a store where such pairs
  are unique, is answered with \<open>AlreadyClaimed\<close> carrying the \<open>id\<close> and \<open>created_at\<close> of \<open>r\<close>;
  the store is unchanged and \<open>r\<close> is its only row for that pair. Every reachable store
  has at most one row for each pair of address and token type.
\<close>

theorem already_claimed:
  "(validate_claim WALLET_ALLOCATIONS b = Normal l
      \<and> tokenType b = JStr tt \<and> userAddress b = JStr ua
      \<and> unique_pairs s
      \<and> r \<in> set (claims s)
      \<and> user_address r = toLowerCase ua \<and> token_type r = toUpperCase tt
      \<and> String_js e (transactionHash b) \<notin> transaction_hash ` set (claims s)
    \<longrightarrow> fst (post_claim WALLET_ALLOCATIONS e s b)
          = AlreadyClaimed (claims_id r) (created_at r)
        \<and> fst (snd (post_claim WALLET_ALLOCATIONS e s b)) = s
        \<and> filter (\<lambda>x. user_address x = toLowerCase ua \<and> token_type x = toUpperCase tt)
            (claims (fst (snd (post_claim WALLET_ALLOCATIONS e s b)))) = [r])
   \<and> (reachable s \<longrightarrow> unique_pairs s)"
proof (intro conjI impI)
  assume a: "validate_claim WALLET_ALLOCATIONS b = Normal l
      \<and> tokenType b = JStr tt \<and> userAddress b = JStr ua
      \<and> unique_pairs s
      \<and> r \<in> set (claims s)
      \<and> user_address r = toLowerCase ua \<and> token_type r = toUpperCase tt
      \<and> String_js e (transactionHash b) \<notin> transaction_hash ` set (claims s)"
  from a validate_claim_Normal [of WALLET_ALLOCATIONS b l]
  have l: "claimUserAddress l = toLowerCase ua" "tokenType_string l = tt" by auto
  let ?f = "\<lambda>r. (user_address r, token_type r)"
  from a have "distinct (map ?f (claims s))" and "r \<in> set (claims s)"
    by (simp_all add: unique_pairs_def)
  then have "filter (\<lambda>x. ?f x = ?f r) (claims s) = [r]"
    by (rule filter_unique)
  with a have one: "filter (\<lambda>x. user_address x = toLowerCase ua \<and> token_type x = toUpperCase tt)
            (claims s) = [r]"
    by simp
  then have pair: "select_claims_by_user_token (claimUserAddress l)
                     (toUpperCase (tokenType_string l)) s = [r]"
    by (simp add: select_claims_by_user_token_def l)
  from a have "\<forall>x\<in>set (claims s). transaction_hash x \<noteq> String_js e (transactionHash b)"
    by (metis image_eqI)
  then have fresh: "select_claims_by_hash (String_js e (transactionHash b)) s = []"
    by (simp add: select_claims_by_hash_def)
  from submit_already_claimed [OF fresh pair] a
  have p: "post_claim WALLET_ALLOCATIONS e s b =
           (AlreadyClaimed (claims_id r) (created_at r), s,
            [BEGIN, SELECT_claims_by_hash (String_js e (transactionHash b)),
             SELECT_claims_by_user_token (claimUserAddress l) (toUpperCase (tokenType_string l)),
             ROLLBACK])"
    by (simp add: post_claim_def)
  show "fst (post_claim WALLET_ALLOCATIONS e s b) = AlreadyClaimed (claims_id r) (created_at r)"
    by (simp add: p)
  show "fst (snd (post_claim WALLET_ALLOCATIONS e s b)) = s"
    by (simp add: p)
  show "filter (\<lambda>x. user_address x = toLowerCase ua \<and> token_type x = toUpperCase tt)
            (claims (fst (snd (post_claim WALLET_ALLOCATIONS e s b)))) = [r]"
    by (simp add: p one)
next
  assume "reachable s"
  then show "unique_pairs s" by (simp add: reachable_invariants)
qed

text \<open>
  The wallet \<open>0xabc\<close> has claimed \<open>TARAL\<close> under \<open>tx1\<close>; it asks again under \<open>tx2\<close>, writing
  the token type in lower case.
\<close>

theorem already_claimed_witness:
  "fst (post_claim example_allocations example_env example_db
          (example_body\<lparr>tokenType := JStr ''taral'', transactionHash := JStr ''tx2''\<rparr>))
     = AlreadyClaimed 1 ''2023-11-14 22:13:20.000''
   \<and> fst (snd (post_claim example_allocations example_env example_db
          (example_body\<lparr>tokenType := JStr ''taral'', transactionHash := JStr ''tx2''\<rparr>)))
     = example_db
   \<and> reachable example_db \<and> unique_pairs example_db"
proof -
  let ?b = "example_body\<lparr>tokenType := JStr ''taral'', transactionHash := JStr ''tx2''\<rparr>"
  let ?l = "\<lparr>tokenType_string = ''taral'', claimAmount = Finite 50,
             rate = Finite 2, claimUserAddress = ''0xabc''\<rparr>"
  have h: "validate_claim example_allocations ?b = Normal ?l
      \<and> tokenType ?b = JStr ''taral'' \<and> userAddress ?b = JStr ''0xABC''
      \<and> unique_pairs example_db
      \<and> example_row \<in> set (claims example_db)
      \<and> user_address example_row = toLowerCase ''0xABC''
      \<and> token_type example_row = toUpperCase ''taral''
      \<and> String_js example_env (transactionHash ?b)
          \<notin> transaction_hash ` set (claims example_db)"
    by code_simp
  have f: "claims_id example_row = 1" "created_at example_row = ''2023-11-14 22:13:20.000''"
    by (simp_all add: example_row_def)
  from already_claimed [of example_allocations ?b ?l "''taral''" "''0xABC''" example_db
      example_row example_env] h reachable_example_db
  show ?thesis by (simp add: f)
qed

text \<open>
  C3 speaks of several calls in flight at once. The model runs one request after the
  other, so it has no statement of that claim.
\<close>

text \<open>
  C4, at two requests the handler can receive. The table holds the single wallet
  \<open>0xabc\<close>. The address \<open>constructor\<close> is not a key of the table, yet the look-up finds
  the property inherited from \<open>Object.prototype\<close>: the allocation read from it is
  \<open>undefined\<close>, the comparison of the amounts is made on \<open>NaN\<close> and is false, and the
  request passes every check and is recorded with the amount it asked for, instead of
  being answered with \<open>UnknownWallet\<close>. A token type that is the number 5 passes the
  test for missing fields and makes \<open>toUpperCase\<close> throw: the answer is the internal
  error, not \<open>InvalidTokenKind\<close>.
\<close>

theorem inherited_key_and_number_token:
  "example_allocations = Some [''0xabc'' \<mapsto> \<lparr>taral = Finite 50, rvlng = Finite 0\<rparr>]
   \<and> [''0xabc'' \<mapsto> \<lparr>taral = Finite 50, rvlng = Finite 0\<rparr>] (toLowerCase ''constructor'') = None
   \<and> fst (post_claim example_allocations example_env empty_db
            (example_body\<lparr>userAddress := JStr ''constructor'', amount := JStr ''999''\<rparr>))
       = Success
           \<lparr>claimId = ''1700000000000_k3j5x0q'', res_tokenType = ''TARAL'',
            amountClaimed = Finite 999, novaReceived = Finite 1998,
            res_transactionHash = JStr ''tx1'', res_userAddress = ''constructor'',
            res_status = ''completed'', res_timestamp = JStr ''2023-11-14T22:13:20.000Z'',
            taralClaimed = Finite 999, rvlngClaimed = Finite 0, totalNova = Finite 1998,
            totalClaims = 1\<rparr>
   \<and> post_claim example_allocations example_env empty_db
        (example_body\<lparr>tokenType := JNum (Finite 5)\<rparr>)
      = (InternalError ''tokenType.toUpperCase is not a function'', empty_db, [BEGIN, ROLLBACK])"
proof -
  have k: "toLowerCase ''constructor'' = ''constructor''" by code_simp
  have "fst (post_claim example_allocations example_env empty_db
                 (example_body\<lparr>userAddress := JStr ''constructor'', amount := JStr ''999''\<rparr>)) =
    Success \<lparr>claimId = ''1700000000000_k3j5x0q'', res_tokenType = ''TARAL'',
      amountClaimed = Finite 999, novaReceived = Finite 1998,
      res_transactionHash = JStr ''tx1'', res_userAddress = ''constructor'',
      res_status = ''completed'',
      res_timestamp = JStr ''2023-11-14T22:13:20.000Z'',
      taralClaimed = Finite 999, rvlngClaimed = Finite 0,
      totalNova = Finite 1998, totalClaims = 1\<rparr>"
    by code_simp
  moreover have "post_claim example_allocations example_env empty_db
        (example_body\<lparr>tokenType := JNum (Finite 5)\<rparr>)
      = (InternalError ''tokenType.toUpperCase is not a function'', empty_db, [BEGIN, ROLLBACK])"
    by code_simp
  ultimately show ?thesis by (simp add: example_allocations_def k)
qed

text \<open>
  C5, at the rates \<open>"0"\<close>, \<open>"abc"\<close> and \<open>0\<close>. \<open>parseFloat(conversionRate) || 1\<close> replaces
  \<open>NaN\<close> and \<open>0\<close> by \<open>1\<close> before the test \<open>isNaN(rate) || rate <= 0\<close>, so none of them is
  rejected: the checks pass with rate \<open>1\<close> and the claim is recorded with the derived
  amount equal to the amount. An absent rate gives rate \<open>1\<close> as well, and only a negative
  rate is answered with \<open>InvalidRate\<close>.
\<close>

theorem zero_and_text_rates_default_to_one:
  "(fst (post_claim example_allocations example_env empty_db
           (example_body\<lparr>conversionRate := JStr ''0''\<rparr>))
      = Success
          \<lparr>claimId = ''1700000000000_k3j5x0q'', res_tokenType = ''TARAL'',
           amountClaimed = Finite 50, novaReceived = Finite 50,
           res_transactionHash = JStr ''tx1'', res_userAddress = ''0xabc'',
           res_status = ''completed'', res_timestamp = JStr ''2023-11-14T22:13:20.000Z'',
           taralClaimed = Finite 50, rvlngClaimed = Finite 0, totalNova = Finite 50,
           totalClaims = 1\<rparr>
    \<and> map conversion_rate
          (claims (fst (snd (post_claim example_allocations example_env empty_db
             (example_body\<lparr>conversionRate := JStr ''0''\<rparr>))))) = [Finite 1])
   \<and> map conversion_rate
         (claims (fst (snd (post_claim example_allocations example_env empty_db
            (example_body\<lparr>conversionRate := JStr ''abc''\<rparr>))))) = [Finite 1]
   \<and> map conversion_rate
         (claims (fst (snd (post_claim example_allocations example_env empty_db
            (example_body\<lparr>conversionRate := JNum (Finite 0)\<rparr>))))) = [Finite 1]
   \<and> map conversion_rate
         (claims (fst (snd (post_claim example_allocations example_env empty_db
            (example_body\<lparr>conversionRate := JUndefined\<rparr>))))) = [Finite 1]
   \<and> post_claim example_allocations example_env empty_db
        (example_body\<lparr>conversionRate := JStr ''-1''\<rparr>) = (InvalidRate, empty_db, [BEGIN])"
proof (intro conjI)
  show "fst (post_claim example_allocations example_env empty_db
           (example_body\<lparr>conversionRate := JStr ''0''\<rparr>))
      = Success
          \<lparr>claimId = ''1700000000000_k3j5x0q'', res_tokenType = ''TARAL'',
           amountClaimed = Finite 50, novaReceived = Finite 50,
           res_transactionHash = JStr ''tx1'', res_userAddress = ''0xabc'',
           res_status = ''completed'', res_timestamp = JStr ''2023-11-14T22:13:20.000Z'',
           taralClaimed = Finite 50, rvlngClaimed = Finite 0, totalNova = Finite 50,
           totalClaims = 1\<rparr>"
    by code_simp
  show "map conversion_rate
          (claims (fst (snd (post_claim example_allocations example_env empty_db
             (example_body\<lparr>conversionRate := JStr ''0''\<rparr>))))) = [Finite 1]"
    by code_simp
  show "map conversion_rate
         (claims (fst (snd (post_claim example_allocations example_env empty_db
            (example_body\<lparr>conversionRate := JStr ''abc''\<rparr>))))) = [Finite 1]"
    by code_simp
  show "map conversion_rate
         (claims (fst (snd (post_claim example_allocations example_env empty_db
            (example_body\<lparr>conversionRate := JNum (Finite 0)\<rparr>))))) = [Finite 1]"
    by code_simp
  show "map conversion_rate
         (claims (fst (snd (post_claim example_allocations example_env empty_db
            (example_body\<lparr>conversionRate := JUndefined\<rparr>))))) = [Finite 1]"
    by code_simp
  show "post_claim example_allocations example_env empty_db
        (example_body\<lparr>conversionRate := JStr ''-1''\<rparr>) = (InvalidRate, empty_db, [BEGIN])"
    by code_simp
qed

text \<open>
  C6 as stated fails: the handler sends \<open>BEGIN\<close> before its first check, so a rejected
  request has opened a transaction. Here the amount \<open>"abc"\<close> is rejected with
  \<open>InvalidAmount\<close> after \<open>BEGIN\<close> was sent.
\<close>

theorem rejected_request_opens_transaction:
  "fst (post_claim example_allocations example_env empty_db
          (example_body\<lparr>amount := JStr ''abc''\<rparr>)) = InvalidAmount
   \<and> snd (snd (post_claim example_allocations example_env empty_db
          (example_body\<lparr>amount := JStr ''abc''\<rparr>))) = [BEGIN]"
  by code_simp

text \<open>
  C6, amended. When the answer is one of the rejections of the checks (missing fields,
  token type, amount, rate, unknown wallet, allocation mismatch), the first statement
  sent is \<open>BEGIN\<close>, no statement sent reads or writes a row of \<open>claims\<close> or \<open>users\<close>, and
  the store is unchanged.
\<close>

theorem rejected_request_touches_no_rows:
  assumes "post_claim WALLET_ALLOCATIONS e s b = (r, s', sent)"
    and "r \<in> {MissingFields, InvalidTokenKind, InvalidAmount, InvalidRate, UnknownWallet}
         \<or> (\<exists>u c. r = AllocationMismatch u c)"
  shows "hd sent = BEGIN \<and> filter reads_or_writes_rows sent = [] \<and> s' = s"
  using post_claim_rejected [OF assms] by simp

text \<open>A wallet that is not in the table asks while the store holds one claim.\<close>

theorem rejected_request_touches_no_rows_witness:
  "hd (snd (snd (post_claim example_allocations example_env example_db
                   (example_body\<lparr>userAddress := JStr ''0xdef''\<rparr>)))) = BEGIN
   \<and> filter reads_or_writes_rows
        (snd (snd (post_claim example_allocations example_env example_db
                     (example_body\<lparr>userAddress := JStr ''0xdef''\<rparr>)))) = []
   \<and> fst (snd (post_claim example_allocations example_env example_db
                 (example_body\<lparr>userAddress := JStr ''0xdef''\<rparr>))) = example_db"
proof -
  let ?b = "example_body\<lparr>userAddress := JStr ''0xdef''\<rparr>"
  obtain r s' sent where
    p: "post_claim example_allocations example_env example_db ?b = (r, s', sent)"
    by (metis prod_cases3)
  have "fst (post_claim example_allocations example_env example_db ?b) = UnknownWallet"
    by code_simp
  with p have r: "r \<in> {MissingFields, InvalidTokenKind, InvalidAmount, InvalidRate, UnknownWallet}
         \<or> (\<exists>u c. r = AllocationMismatch u c)"
    by simp
  from rejected_request_touches_no_rows [OF p r]
  have "hd sent = BEGIN \<and> filter reads_or_writes_rows sent = [] \<and> s' = example_db" .
  with p show ?thesis by simp
qed

text \<open>
  C7 as stated fails when the product is not a double: the derived amount is the product
  as JavaScript computes it, rounded to the nearest double. The wallet allocated one tenth
  claims \<open>"0.1"\<close> at rate \<open>"3"\<close>: the row holds the amount one tenth, the rate 3 and the
  derived amount 0.30000000000000004, which is not three times the amount.
\<close>

theorem derived_amount_is_rounded:
  "map claims_amount
     (claims (fst (snd (post_claim tenth_allocations example_env empty_db tenth_body))))
     = [Finite tenth]
   \<and> map conversion_rate
       (claims (fst (snd (post_claim tenth_allocations example_env empty_db tenth_body))))
     = [Finite 3]
   \<and> map nova_amount
       (claims (fst (snd (post_claim tenth_allocations example_env empty_db tenth_body))))
     = [Finite (1351079888211149 / 4503599627370496)]
   \<and> 1351079888211149 / 4503599627370496 \<noteq> tenth * 3"
proof (intro conjI)
  show "map claims_amount
     (claims (fst (snd (post_claim tenth_allocations example_env empty_db tenth_body))))
     = [Finite tenth]"
    by code_simp
  show "map conversion_rate
       (claims (fst (snd (post_claim tenth_allocations example_env empty_db tenth_body))))
     = [Finite 3]"
    by code_simp
  show "map nova_amount
       (claims (fst (snd (post_claim tenth_allocations example_env empty_db tenth_body))))
     = [Finite (1351079888211149 / 4503599627370496)]"
    by code_simp
  show "1351079888211149 / 4503599627370496 \<noteq> tenth * 3"
    by (simp add: tenth_def)
qed

text \<open>
  C7, amended. When the handler answers with success, it has added one row to \<open>claims\<close>
  whose \<open>nova_amount\<close> is the product of its amount and its conversion rate as JavaScript
  computes it: for finite numbers the exact product rounded to the nearest double. The
  rate is positive, and the response reports that amount and that product. In the
  scenario of the specification (allocation 50, amount \<open>"50"\<close>, rate \<open>"2"\<close>, empty store)
  the answer is success with derived amount 100, totals 50, 0 and 100, and one claim.
\<close>

theorem derived_amount:
  "(post_claim WALLET_ALLOCATIONS e s b = (Success d, s', sent) \<longrightarrow>
      (\<exists>row. claims s' = claims s @ [row]
         \<and> nova_amount row = js_mul (claims_amount row) (conversion_rate row)
         \<and> (\<forall>x y. claims_amount row = Finite x \<and> conversion_rate row = Finite y
                \<longrightarrow> nova_amount row = round_double (x * y))
         \<and> js_gt (conversion_rate row) (Finite 0)
         \<and> amountClaimed d = claims_amount row \<and> novaReceived d = nova_amount row))
   \<and> (\<exists>d. fst (post_claim example_allocations example_env empty_db example_body) = Success d
         \<and> amountClaimed d = Finite 50 \<and> novaReceived d = Finite 100
         \<and> taralClaimed d = Finite 50 \<and> rvlngClaimed d = Finite 0
         \<and> totalNova d = Finite 100 \<and> totalClaims d = 1)"
proof (intro conjI impI)
  assume p: "post_claim WALLET_ALLOCATIONS e s b = (Success d, s', sent)"
  from post_claim_claims [OF p] obtain l row where
    v: "validate_claim WALLET_ALLOCATIONS b = Normal l" and
    c: "claims s' = claims s @ [row]" and a: "appended e s b l row"
    by auto
  from p v obtain sent' where "submit e s b l = (Success d, s', sent')"
    by (auto simp: post_claim_def split: prod.splits)
  from submit_Success [OF this]
  have d: "novaReceived d = js_mul (claimAmount l) (rate l)" "amountClaimed d = claimAmount l"
    by simp_all
  from validate_claim_Normal [OF v] have "js_gt (rate l) (Finite 0)" by auto
  with a c d show "\<exists>row. claims s' = claims s @ [row]
         \<and> nova_amount row = js_mul (claims_amount row) (conversion_rate row)
         \<and> (\<forall>x y. claims_amount row = Finite x \<and> conversion_rate row = Finite y
                \<longrightarrow> nova_amount row = round_double (x * y))
         \<and> js_gt (conversion_rate row) (Finite 0)
         \<and> amountClaimed d = claims_amount row \<and> novaReceived d = nova_amount row"
    by (auto simp: appended_def js_mul_Finite)
next
  have "fst (post_claim example_allocations example_env empty_db example_body) =
    Success \<lparr>claimId = ''1700000000000_k3j5x0q'', res_tokenType = ''TARAL'',
      amountClaimed = Finite 50, novaReceived = Finite 100,
      res_transactionHash = JStr ''tx1'', res_userAddress = ''0xabc'',
      res_status = ''completed'',
      res_timestamp = JStr ''2023-11-14T22:13:20.000Z'',
      taralClaimed = Finite 50, rvlngClaimed = Finite 0,
      totalNova = Finite 100, totalClaims = 1\<rparr>"
    by code_simp
  then show "\<exists>d. fst (post_claim example_allocations example_env empty_db example_body) = Success d
         \<and> amountClaimed d = Finite 50 \<and> novaReceived d = Finite 100
         \<and> taralClaimed d = Finite 50 \<and> rvlngClaimed d = Finite 0
         \<and> totalNova d = Finite 100 \<and> totalClaims d = 1"
    by simp
qed

text \<open>
  The request of one tenth at rate 3: the row added holds the rounded product of its
  amount and its rate.
\<close>

theorem derived_amount_witness:
  "\<exists>row. claims (fst (snd (post_claim tenth_allocations example_env empty_db tenth_body)))
            = claims empty_db @ [row]
         \<and> nova_amount row = js_mul (claims_amount row) (conversion_rate row)
         \<and> js_gt (conversion_rate row) (Finite 0)"
proof -
  obtain r s' sent where
    p: "post_claim tenth_allocations example_env empty_db tenth_body = (r, s', sent)"
    by (metis prod_cases3)
  have "(case fst (post_claim tenth_allocations example_env empty_db tenth_body) of
           Success d \<Rightarrow> True | _ \<Rightarrow> False)"
    by code_simp
  with p obtain d where r: "r = Success d" by (cases r) simp_all
  from derived_amount [of tenth_allocations example_env empty_db tenth_body d s' sent] p r
  obtain row where "claims s' = claims empty_db @ [row]"
    "nova_amount row = js_mul (claims_amount row) (conversion_rate row)"
    "js_gt (conversion_rate row) (Finite 0)"
    by blast
  with p show ?thesis by auto
qed

text \<open>
  C8, after a load that failed. The loader returns \<open>undefined\<close>, so the look-up throws
  instead of reporting an absent wallet: no request is ever answered with
  \<open>UnknownWallet\<close>, and the example request is answered with the internal error after a
  \<open>ROLLBACK\<close>.
\<close>

theorem failed_load_makes_lookup_throw:
  "loadWalletAllocations None = None
   \<and> getUserAllocation (loadWalletAllocations None) a t
       = Inl (cannot_read (toLowerCase a))
   \<and> fst (post_claim (loadWalletAllocations None) e s b) \<noteq> UnknownWallet
   \<and> post_claim (loadWalletAllocations None) example_env empty_db example_body
       = (InternalError (cannot_read ''0xabc''), empty_db, [BEGIN, ROLLBACK])"
proof -
  have l: "loadWalletAllocations None = None" by (simp add: loadWalletAllocations_def)
  have g: "\<And>a t. getUserAllocation None a t = Inl (cannot_read (toLowerCase a))"
    by (simp add: getUserAllocation_def)
  have v: "validate_claim None b \<noteq> Return UnknownWallet"
    by (auto simp: validate_claim_def Let_def g split: if_splits jsval.splits)
  have "fst (post_claim None e s b) \<noteq> UnknownWallet"
  proof (cases "validate_claim None b")
    case (Return x)
    with v show ?thesis by (auto simp: post_claim_def)
  next
    case (Throw m)
    then show ?thesis by (simp add: post_claim_def)
  next
    case (Normal l)
    obtain r s' sent where q: "submit e s b l = (r, s', sent)" by (metis prod_cases3)
    from submit_response [OF q] have "r \<noteq> UnknownWallet" by auto
    with Normal q show ?thesis by (simp add: post_claim_def)
  qed
  moreover have "post_claim None example_env empty_db example_body
       = (InternalError (cannot_read ''0xabc''), empty_db, [BEGIN, ROLLBACK])"
    by code_simp
  ultimately show ?thesis by (simp add: l g)
qed

text \<open>
  C9 as stated fails when the sum is not a double: \<open>claimed\<close> is accumulated with the
  rounded addition of JavaScript. The wallet is allocated eight tenths and has eight
  claims of one tenth. The eight amounts add up to the allocation, yet the handler
  answers claimed 0.7999999999999999, remaining \<open>2 ^ -53\<close> and \<open>canClaim\<close> true.
\<close>

theorem claimed_sum_is_rounded:
  "get_allocations eight_tenths_allocations eight_claims_db ''0xabc'' =
     Allocations
       \<lparr>allocated = Amount (Finite (3602879701896397 / 4503599627370496)),
        claimed = Finite (7205759403792793 / 9007199254740992),
        remaining = Finite (1 / 9007199254740992), canClaim = True\<rparr>
       \<lparr>allocated = Amount (Finite 0), claimed = Finite 0, remaining = Finite 0,
        canClaim = False\<rparr>
   \<and> claimed_amounts eight_claims_db ''0xabc'' ''TARAL'' = replicate 8 (Finite tenth)
   \<and> sum_list (replicate 8 tenth) = 3602879701896397 / 4503599627370496"
proof (intro conjI)
  show "get_allocations eight_tenths_allocations eight_claims_db ''0xabc'' =
     Allocations
       \<lparr>allocated = Amount (Finite (3602879701896397 / 4503599627370496)),
        claimed = Finite (7205759403792793 / 9007199254740992),
        remaining = Finite (1 / 9007199254740992), canClaim = True\<rparr>
       \<lparr>allocated = Amount (Finite 0), claimed = Finite 0, remaining = Finite 0,
        canClaim = False\<rparr>"
    by code_simp
  show "claimed_amounts eight_claims_db ''0xabc'' ''TARAL'' = replicate 8 (Finite tenth)"
    by code_simp
  show "sum_list (replicate 8 tenth) = 3602879701896397 / 4503599627370496"
    by code_simp
qed

text \<open>
  C9, amended. For a wallet whose lower-case address is a key of the table, the handler
  answers, for each token type, with the allocated amount, with \<open>claimed\<close> the amounts of
  the wallet's rows of that type added one after the other from \<open>0\<close> with the rounded
  addition of JavaScript, with \<open>remaining = Math.max(0, allocated - claimed)\<close> on the
  rounded difference and \<open>canClaim = remaining > 0\<close>. The remaining amount is never below
  zero, and when \<open>claimed\<close> exceeds the allocation it is \<open>0\<close> and \<open>canClaim\<close> is false. After
  the full claim of the allocation of 50 the answer for \<open>TARAL\<close> is allocated 50, claimed
  50, remaining 0, \<open>canClaim\<close> false.
\<close>

theorem allocation_status:
  "(WALLET_ALLOCATIONS = Some obj \<and> obj (toLowerCase param) = Some a \<longrightarrow>
      (\<exists>t r. get_allocations WALLET_ALLOCATIONS s param = Allocations t r
         \<and> allocated t = Amount (taral a) \<and> allocated r = Amount (rvlng a)
         \<and> claimed t = js_sum (claimed_amounts s (toLowerCase param) ''TARAL'')
         \<and> claimed r = js_sum (claimed_amounts s (toLowerCase param) ''RVLNG'')
         \<and> remaining t = Math_max (Finite 0) (js_sub (taral a) (claimed t))
         \<and> remaining r = Math_max (Finite 0) (js_sub (rvlng a) (claimed r))
         \<and> canClaim t = js_gt (remaining t) (Finite 0)
         \<and> canClaim r = js_gt (remaining r) (Finite 0)
         \<and> \<not> js_lt (remaining t) (Finite 0) \<and> \<not> js_lt (remaining r) (Finite 0)
         \<and> (js_lt (taral a) (claimed t) \<longrightarrow> remaining t = Finite 0 \<and> \<not> canClaim t)
         \<and> (js_lt (rvlng a) (claimed r) \<longrightarrow> remaining r = Finite 0 \<and> \<not> canClaim r)))
   \<and> get_allocations example_allocations example_db ''0xabc'' =
       Allocations
         \<lparr>allocated = Amount (Finite 50), claimed = Finite 50, remaining = Finite 0,
          canClaim = False\<rparr>
         \<lparr>allocated = Amount (Finite 0), claimed = Finite 0, remaining = Finite 0,
          canClaim = False\<rparr>"
proof (intro conjI impI)
  assume h: "WALLET_ALLOCATIONS = Some obj \<and> obj (toLowerCase param) = Some a"
  let ?ct = "js_sum (claimed_amounts s (toLowerCase param) ''TARAL'')"
  let ?cr = "js_sum (claimed_amounts s (toLowerCase param) ''RVLNG'')"
  let ?t = "\<lparr>allocated = Amount (taral a), claimed = ?ct,
             remaining = Math_max (Finite 0) (js_sub (taral a) ?ct),
             canClaim = js_gt (Math_max (Finite 0) (js_sub (taral a) ?ct)) (Finite 0)\<rparr>"
  let ?r = "\<lparr>allocated = Amount (rvlng a), claimed = ?cr,
             remaining = Math_max (Finite 0) (js_sub (rvlng a) ?cr),
             canClaim = js_gt (Math_max (Finite 0) (js_sub (rvlng a) ?cr)) (Finite 0)\<rparr>"
  from h have g: "get_allocations WALLET_ALLOCATIONS s param = Allocations ?t ?r"
    by (simp add: get_allocations_def get_property_def add_claimed_sums Let_def)
  show "\<exists>t r. get_allocations WALLET_ALLOCATIONS s param = Allocations t r
         \<and> allocated t = Amount (taral a) \<and> allocated r = Amount (rvlng a)
         \<and> claimed t = js_sum (claimed_amounts s (toLowerCase param) ''TARAL'')
         \<and> claimed r = js_sum (claimed_amounts s (toLowerCase param) ''RVLNG'')
         \<and> remaining t = Math_max (Finite 0) (js_sub (taral a) (claimed t))
         \<and> remaining r = Math_max (Finite 0) (js_sub (rvlng a) (claimed r))
         \<and> canClaim t = js_gt (remaining t) (Finite 0)
         \<and> canClaim r = js_gt (remaining r) (Finite 0)
         \<and> \<not> js_lt (remaining t) (Finite 0) \<and> \<not> js_lt (remaining r) (Finite 0)
         \<and> (js_lt (taral a) (claimed t) \<longrightarrow> remaining t = Finite 0 \<and> \<not> canClaim t)
         \<and> (js_lt (rvlng a) (claimed r) \<longrightarrow> remaining r = Finite 0 \<and> \<not> canClaim r)"
    apply (rule exI [of _ ?t], rule exI [of _ ?r])
    apply (simp add: g Math_max_not_negative)
    apply (auto simp: remaining_of_less js_gt_def)
    done
next
  show "get_allocations example_allocations example_db ''0xabc'' =
       Allocations
         \<lparr>allocated = Amount (Finite 50), claimed = Finite 50, remaining = Finite 0,
          canClaim = False\<rparr>
         \<lparr>allocated = Amount (Finite 0), claimed = Finite 0, remaining = Finite 0,
          canClaim = False\<rparr>"
    by code_simp
qed

text \<open>
  The wallet allocated eight tenths, addressed in upper case, with its eight claims:
  \<open>claimed\<close> is the rounded sum and the remaining amount is not below zero.
\<close>

theorem allocation_status_witness:
  "\<exists>t r. get_allocations eight_tenths_allocations eight_claims_db ''0xABC'' = Allocations t r
      \<and> allocated t = Amount (Finite (8 * tenth))
      \<and> claimed t = js_sum (claimed_amounts eight_claims_db ''0xabc'' ''TARAL'')
      \<and> \<not> js_lt (remaining t) (Finite 0)"
proof -
  let ?a = "\<lparr>taral = Finite (8 * tenth), rvlng = Finite 0\<rparr>"
  let ?obj = "[''0xabc'' \<mapsto> ?a]"
  have k: "toLowerCase ''0xABC'' = ''0xabc''" by code_simp
  have h: "eight_tenths_allocations = Some ?obj \<and> ?obj (toLowerCase ''0xABC'') = Some ?a"
    by (simp add: eight_tenths_allocations_def k)
  from allocation_status [of eight_tenths_allocations ?obj "''0xABC''" ?a eight_claims_db] h
  obtain t r where
    "get_allocations eight_tenths_allocations eight_claims_db ''0xABC'' = Allocations t r"
    "allocated t = Amount (taral ?a)"
    "claimed t = js_sum (claimed_amounts eight_claims_db (toLowerCase ''0xABC'') ''TARAL'')"
    "\<not> js_lt (remaining t) (Finite 0)"
    by blast
  then show ?thesis by (auto simp: k)
qed

text \<open>
  C10. If one of the four required fields is the number \<open>0\<close>, the empty string, \<open>false\<close> or
  \<open>null\<close>, the handler answers \<open>MissingFields\<close> after \<open>BEGIN\<close> and leaves the store as it
  is; an amount given as the number \<open>0\<close> is therefore not answered with \<open>InvalidAmount\<close>.
\<close>

theorem falsy_field_is_missing:
  assumes "f \<in> {tokenType b, amount b, transactionHash b, userAddress b}"
    and "f \<in> {JNum (Finite 0), JStr [], JBool False, JNull}"
  shows "post_claim WALLET_ALLOCATIONS e s b = (MissingFields, s, [BEGIN])
         \<and> (amount b = JNum (Finite 0)
              \<longrightarrow> fst (post_claim WALLET_ALLOCATIONS e s b) \<noteq> InvalidAmount)"
proof -
  from assms(2) have "\<not> truthy f" by (auto simp: truthy_number_def)
  with assms(1) have "validate_claim WALLET_ALLOCATIONS b = Return MissingFields"
    by (intro validate_claim_falsy) auto
  then show ?thesis by (simp add: post_claim_def)
qed

text \<open>The example request with the amount replaced by the number \<open>0\<close>.\<close>

theorem falsy_field_is_missing_witness:
  "post_claim example_allocations example_env empty_db (example_body\<lparr>amount := JNum (Finite 0)\<rparr>)
     = (MissingFields, empty_db, [BEGIN])
   \<and> fst (post_claim example_allocations example_env empty_db
            (example_body\<lparr>amount := JNum (Finite 0)\<rparr>)) \<noteq> InvalidAmount"
  using falsy_field_is_missing [of "JNum (Finite 0)" "example_body\<lparr>amount := JNum (Finite 0)\<rparr>"
      example_allocations example_env empty_db]
  by simp

end
